theory Spec2Isabelle
  imports Complex_Main "HOL-Library.Multiset" "HOL-Library.Word"
begin

section \<open>The inventory allocation service\<close>

text \<open>
  The backend places orders against a PostgreSQL database holding two tables,
  \<open>products\<close> and \<open>orders\<close> (created by \<open>scripts/migrate.js\<close>). The embedding follows
  the layers of the source: the tables and a client connection with its transaction,
  the two repositories (\<open>productRepository.js\<close>, \<open>orderRepository.js\<close>) and the
  service (\<open>orderService.js\<close>), whose \<open>placeOrder\<close> is the allocation routine.
\<close>

subsection \<open>Tables\<close>

text \<open>
  \<open>products (id SERIAL PRIMARY KEY, name, stock INTEGER CHECK (stock >= 0), created_at)\<close>:
  the primary key makes the table a finite map from \<open>id\<close> to the rest of the row.
  \<open>orders (id SERIAL PRIMARY KEY, product_id INTEGER REFERENCES products(id),
  quantity INTEGER CHECK (quantity > 0), status, created_at)\<close>: kept in insertion
  order. The status strings of \<open>models/Order.js\<close> are a datatype. Timestamps are natural
  numbers.

  An SQL \<open>INTEGER\<close> is a signed 32-bit number: the columns \<open>products.id\<close>, \<open>stock\<close>,
  \<open>product_id\<close> and \<open>quantity\<close> hold 32-bit words, read as integers by \<open>sint\<close>.
  PostgreSQL does not wrap around: a result outside the range is the error
  \<open>integer out of range\<close>, which the statements below raise where they compute. The
  sequence behind \<open>orders.id\<close> is a counter that the model does not bound, and the \<open>id\<close>
  it gives is kept as an integer.
\<close>

type_synonym int4 = "32 word"

definition int4_range :: "int \<Rightarrow> bool" where
  "int4_range k = (- 2147483648 \<le> k \<and> k \<le> 2147483647)"

datatype status = PENDING | CONFIRMED | FAILED

record product =
  p_name :: string
  p_stock :: int4
  p_created_at :: nat

record order_row =
  o_id :: int
  o_product_id :: int4
  o_quantity :: int4
  o_status :: status
  o_created_at :: nat

record database =
  products :: "int4 \<rightharpoonup> product"
  orders :: "order_row list"

text \<open>
  What the database server holds between calls: the committed tables and the sequence
  behind \<open>orders.id\<close> (a sequence is not transactional: a rolled back \<open>INSERT\<close> still
  consumes its value).
\<close>

record server =
  committed :: database
  orders_id_seq :: int

text \<open>
  A client checked out of the pool is a connection to the server together with its open
  transaction, if any: the private copy of the tables that \<open>BEGIN\<close> starts, that the
  statements of the transaction read and write, that \<open>COMMIT\<close> publishes and that
  \<open>ROLLBACK\<close> throws away.
\<close>

record client = server +
  transaction :: "database option"

subsection \<open>The environment of one call\<close>

text \<open>
  Every \<open>client.query\<close> may throw (lost connection, serialization failure, ...), which
  is what the \<open>catch\<close> block of \<open>placeOrder\<close> is for. The environment of a call says
  which of its statements the database refuses, and what \<open>NOW()\<close> returns. A refused
  statement has no effect; in particular a refused \<open>COMMIT\<close> publishes nothing.
\<close>

datatype query =
  BEGIN | SELECT_FOR_UPDATE | UPDATE_STOCK | INSERT_ORDER | COMMIT | ROLLBACK | SELECT_ORDERS

record env =
  failing :: "query set"
  now :: nat

definition throws :: "env \<Rightarrow> query \<Rightarrow> bool" where
  "throws e q = (q \<in> failing e)"

definition healthy :: "env \<Rightarrow> bool" where
  "healthy e = (failing e = {})"

datatype pg_error = QueryFailed | InvalidInteger | IntegerOutOfRange | ConstraintViolation

type_synonym 'a outcome = "(pg_error + 'a) \<times> client"

text \<open>
  A JavaScript number, which is what \<open>productId\<close> and \<open>quantity\<close> are, is modelled as a
  rational (\<open>NaN\<close> and the infinities are left out). node-postgres sends a number
  parameter as its decimal text; where the statement uses the parameter as an \<open>INTEGER\<close>
  (\<open>id = $1\<close>, \<open>stock - $1\<close>, the \<open>product_id\<close> and \<open>quantity\<close> columns), the server
  parses that text as an \<open>INTEGER\<close> and raises an error when it is not a whole number
  or lies outside the 32-bit range (\<open>None\<close> below).
\<close>

definition pg_integer :: "rat \<Rightarrow> int4 option" where
  "pg_integer x =
     (if of_int \<lfloor>x\<rfloor> = x \<and> int4_range \<lfloor>x\<rfloor> then Some (word_of_int \<lfloor>x\<rfloor>) else None)"

subsection \<open>Transactions\<close>

definition snapshot :: "client \<Rightarrow> database" where
  "snapshot c = (case transaction c of Some tx \<Rightarrow> tx | None \<Rightarrow> committed c)"

definition modify :: "(database \<Rightarrow> database) \<Rightarrow> client \<Rightarrow> client" where
  "modify f c = (case transaction c of
                   Some tx \<Rightarrow> c\<lparr>transaction := Some (f tx)\<rparr>
                 | None \<Rightarrow> c\<lparr>committed := f (committed c)\<rparr>)"

definition query_BEGIN :: "env \<Rightarrow> client \<Rightarrow> unit outcome" where
  "query_BEGIN e c =
     (if throws e BEGIN then (Inl QueryFailed, c)
      else (Inr (), c\<lparr>transaction := Some (snapshot c)\<rparr>))"

definition query_ROLLBACK :: "env \<Rightarrow> client \<Rightarrow> unit outcome" where
  "query_ROLLBACK e c =
     (if throws e ROLLBACK then (Inl QueryFailed, c)
      else (Inr (), c\<lparr>transaction := None\<rparr>))"

definition query_COMMIT :: "env \<Rightarrow> client \<Rightarrow> unit outcome" where
  "query_COMMIT e c =
     (if throws e COMMIT then (Inl QueryFailed, c)
      else (Inr (), c\<lparr>committed := snapshot c, transaction := None\<rparr>))"

text \<open>\<open>pool.connect()\<close> hands out a client with no open transaction (when it throws
  instead, \<open>placeOrder\<close> returns no result at all: the call is outside the \<open>try\<close>);
  \<open>client.release()\<close> returns the client, and what the rest of the system sees from then
  on is the server.\<close>

definition pool_connect :: "server \<Rightarrow> client" where
  "pool_connect s =
     \<lparr>committed = committed s, orders_id_seq = orders_id_seq s, transaction = None\<rparr>"

definition release :: "client \<Rightarrow> server" where
  "release c = \<lparr>committed = committed c, orders_id_seq = orders_id_seq c\<rparr>"

subsection \<open>ProductRepository\<close>

text \<open>\<open>SELECT * FROM products WHERE id = $1 FOR UPDATE\<close>, then \<open>rows[0] || null\<close>.\<close>

definition findByIdWithLock :: "env \<Rightarrow> rat \<Rightarrow> client \<Rightarrow> product option outcome" where
  "findByIdWithLock e productId c =
     (if throws e SELECT_FOR_UPDATE then (Inl QueryFailed, c)
      else case pg_integer productId of
        None \<Rightarrow> (Inl InvalidInteger, c)
      | Some i \<Rightarrow> (Inr (products (snapshot c) i), c))"

text \<open>\<open>UPDATE products SET stock = stock - $1 WHERE id = $2 AND stock >= $1 RETURNING stock\<close>,
  then \<open>rowCount > 0\<close>. Both parameters are parsed as \<open>INTEGER\<close>. For the row that the
  \<open>WHERE\<close> clause selects, \<open>stock - $1\<close> is computed: outside the 32-bit range (only
  possible for a negative \<open>$1\<close>) it is the error \<open>integer out of range\<close>, inside it the
  word subtraction below is exact. The new stock is \<open>stock - $1\<close> with \<open>stock >= $1\<close>, so
  the \<open>CHECK (stock >= 0)\<close> of the column cannot fail here.\<close>

definition deductStock :: "env \<Rightarrow> rat \<Rightarrow> rat \<Rightarrow> client \<Rightarrow> bool outcome" where
  "deductStock e productId quantityToDeduct c =
     (if throws e UPDATE_STOCK then (Inl QueryFailed, c)
      else case pg_integer quantityToDeduct of
        None \<Rightarrow> (Inl InvalidInteger, c)
      | Some n \<Rightarrow>
     (case pg_integer productId of
        None \<Rightarrow> (Inl InvalidInteger, c)
      | Some i \<Rightarrow>
          (case products (snapshot c) i of
             None \<Rightarrow> (Inr False, c)
           | Some p \<Rightarrow>
               if sint (p_stock p) \<ge> sint n
               then if int4_range (sint (p_stock p) - sint n)
                    then (Inr True,
                          modify (\<lambda>db. db\<lparr>products :=
                             (products db)(i \<mapsto> p\<lparr>p_stock := p_stock p - n\<rparr>)\<rparr>) c)
                    else (Inl IntegerOutOfRange, c)
               else (Inr False, c))))"

subsection \<open>OrderRepository\<close>

text \<open>\<open>INSERT INTO orders (product_id, quantity, status, created_at)
  VALUES ($1, $2, $3, NOW()) RETURNING *\<close>, then \<open>rows[0]\<close>. Both numbers are parsed as
  \<open>INTEGER\<close>. The \<open>id\<close> is the next value of the sequence; the row must pass
  \<open>CHECK (quantity > 0)\<close> and the foreign key on \<open>product_id\<close>.\<close>

definition create :: "env \<Rightarrow> rat \<Rightarrow> rat \<Rightarrow> status \<Rightarrow> client \<Rightarrow> order_row outcome" where
  "create e productId quantity st c =
     (if throws e INSERT_ORDER then (Inl QueryFailed, c)
      else case pg_integer productId of
        None \<Rightarrow> (Inl InvalidInteger, c)
      | Some i \<Rightarrow>
     (case pg_integer quantity of
        None \<Rightarrow> (Inl InvalidInteger, c)
      | Some n \<Rightarrow>
          (let new_id = orders_id_seq c + 1;
               c1 = c\<lparr>orders_id_seq := new_id\<rparr>;
               row = \<lparr>o_id = new_id, o_product_id = i, o_quantity = n,
                      o_status = st, o_created_at = now e\<rparr>
           in if sint n \<le> 0 \<or> products (snapshot c) i = None
              then (Inl ConstraintViolation, c1)
              else (Inr row, modify (\<lambda>db. db\<lparr>orders := orders db @ [row]\<rparr>) c1))))"

text \<open>\<open>SELECT o.id, o.product_id, o.quantity, o.status, o.created_at, p.name as product_name
  FROM orders o JOIN products p ON o.product_id = p.id ORDER BY o.created_at DESC\<close>,
  run on the pool, outside any transaction.\<close>

record order_with_product = order_row +
  product_name :: string

definition join_product :: "database \<Rightarrow> order_row \<Rightarrow> order_with_product list" where
  "join_product db ord =
     (case products db (o_product_id ord) of
        None \<Rightarrow> []
      | Some p \<Rightarrow> [\<lparr>o_id = o_id ord, o_product_id = o_product_id ord,
                    o_quantity = o_quantity ord, o_status = o_status ord,
                    o_created_at = o_created_at ord, product_name = p_name p\<rparr>])"

definition findAll :: "env \<Rightarrow> database \<Rightarrow> pg_error + order_with_product list" where
  "findAll e db =
     (if throws e SELECT_ORDERS then Inl QueryFailed
      else Inr (rev (sort_key o_created_at (concat (map (join_product db) (orders db))))))"

subsection \<open>OrderService.placeOrder\<close>

text \<open>The \<open>code\<close> strings of the answers: the first two are only given by the controller,
  \<open>INVALID_QUANTITY\<close> by the controller and the service, the others by the service.\<close>

datatype code =
  MISSING_REQUIRED_FIELDS | INVALID_PRODUCT_ID | INVALID_QUANTITY | PRODUCT_NOT_FOUND
  | INSUFFICIENT_STOCK | STOCK_DEDUCTION_FAILED | INTERNAL_ERROR

text \<open>The object a call returns; the human-readable \<open>error\<close> and \<open>message\<close> strings are
  left out. \<open>availableStock\<close> is the number read from the \<open>stock\<close> column.\<close>

record result =
  success :: bool
  code :: "code option"
  statusCode :: nat
  availableStock :: "int option"
  order :: "order_row option"

definition failure :: "code \<Rightarrow> nat \<Rightarrow> result" where
  "failure cd sc =
     \<lparr>success = False, code = Some cd, statusCode = sc, availableStock = None, order = None\<rparr>"

definition created :: "order_row \<Rightarrow> result" where
  "created ord =
     \<lparr>success = True, code = None, statusCode = 201, availableStock = None, order = Some ord\<rparr>"

text \<open>\<open>await client.query('ROLLBACK'); return {...}\<close>\<close>

definition rollback_return :: "env \<Rightarrow> result \<Rightarrow> client \<Rightarrow> result outcome" where
  "rollback_return e r c =
     (case query_ROLLBACK e c of
        (Inl err, c') \<Rightarrow> (Inl err, c')
      | (Inr _, c') \<Rightarrow> (Inr r, c'))"

text \<open>The body of the \<open>try\<close> block: \<open>Inl\<close> is a thrown error, with the client as it was
  when the statement threw.\<close>

definition placeOrder_try :: "env \<Rightarrow> rat \<Rightarrow> rat \<Rightarrow> client \<Rightarrow> result outcome" where
  "placeOrder_try e productId quantity c0 =
     (case query_BEGIN e c0 of
        (Inl err, c) \<Rightarrow> (Inl err, c)
      | (Inr _, c1) \<Rightarrow>
     (case findByIdWithLock e productId c1 of
        (Inl err, c) \<Rightarrow> (Inl err, c)
      | (Inr None, c2) \<Rightarrow> rollback_return e (failure PRODUCT_NOT_FOUND 404) c2
      | (Inr (Some prodRow), c2) \<Rightarrow>
          if quantity \<le> 0 then rollback_return e (failure INVALID_QUANTITY 400) c2
          else if of_int (sint (p_stock prodRow)) < quantity
          then rollback_return e
                 ((failure INSUFFICIENT_STOCK 400)
                    \<lparr>availableStock := Some (sint (p_stock prodRow))\<rparr>) c2
          else
            (case deductStock e productId quantity c2 of
               (Inl err, c) \<Rightarrow> (Inl err, c)
             | (Inr stockDeducted, c3) \<Rightarrow>
                 if \<not> stockDeducted
                 then rollback_return e (failure STOCK_DEDUCTION_FAILED 500) c3
                 else
                   (case create e productId quantity CONFIRMED c3 of
                      (Inl err, c) \<Rightarrow> (Inl err, c)
                    | (Inr ord, c4) \<Rightarrow>
                        (case query_COMMIT e c4 of
                           (Inl err, c) \<Rightarrow> (Inl err, c)
                         | (Inr _, c5) \<Rightarrow> (Inr (created ord), c5))))))"

text \<open>The whole call: connect, run the body, on a thrown error try to roll back (an error
  of that \<open>ROLLBACK\<close> is only logged) and answer \<open>INTERNAL_ERROR\<close>, and release the
  client in every case.\<close>

definition placeOrder :: "env \<Rightarrow> server \<Rightarrow> rat \<Rightarrow> rat \<Rightarrow> result \<times> server" where
  "placeOrder e s productId quantity =
     (case placeOrder_try e productId quantity (pool_connect s) of
        (Inr r, c) \<Rightarrow> (r, release c)
      | (Inl err, c) \<Rightarrow> (failure INTERNAL_ERROR 500, release (snd (query_ROLLBACK e c))))"

subsection \<open>OrderController.placeOrder: the request check\<close>

text \<open>
  The controller reads \<open>productId\<close> and \<open>quantity\<close> from the JSON body and answers 400 on
  its own in three cases; otherwise it passes both numbers to the service. A body field
  is \<open>undefined\<close>, a number, or a value of another type.
\<close>

datatype body_field = Undefined | Number rat | Other

text \<open>\<open>typeof v !== 'number' || v <= 0\<close>\<close>

definition not_positive_number :: "body_field \<Rightarrow> bool" where
  "not_positive_number v = (case v of Number x \<Rightarrow> x \<le> 0 | _ \<Rightarrow> True)"

text \<open>The three checks in front of the call of \<open>orderService.placeOrder\<close>: \<open>Some c\<close> is
  the 400 answer with code \<open>c\<close>, \<open>None\<close> means that the service is called.\<close>

definition request_check :: "body_field \<Rightarrow> body_field \<Rightarrow> code option" where
  "request_check productId quantity =
     (if productId = Undefined \<or> quantity = Undefined then Some MISSING_REQUIRED_FIELDS
      else if not_positive_number productId then Some INVALID_PRODUCT_ID
      else if not_positive_number quantity then Some INVALID_QUANTITY
      else None)"

subsection \<open>Sequences of calls, totals of the ledger, sample data\<close>

text \<open>Calls made one after another, each on the server as the previous one left it.\<close>

type_synonym call = "env \<times> rat \<times> rat"

fun placeOrders :: "server \<Rightarrow> call list \<Rightarrow> result list \<times> server" where
  "placeOrders s [] = ([], s)"
| "placeOrders s ((e, productId, quantity) # calls) =
     (case placeOrder e s productId quantity of
        (r, s1) \<Rightarrow> (case placeOrders s1 calls of (rs, s2) \<Rightarrow> (r # rs, s2)))"

text \<open>The sum of the quantities of the \<open>CONFIRMED\<close> orders recorded against a product.\<close>

definition confirmed_total :: "database \<Rightarrow> int4 \<Rightarrow> int" where
  "confirmed_total db r =
     sum_list (map (\<lambda>x. sint (o_quantity x))
       (filter (\<lambda>x. o_product_id x = r \<and> o_status x = CONFIRMED) (orders db)))"

text \<open>The sum of the quantities of the calls against a product, named by its id as a
  number, that returned success.\<close>

fun granted_total :: "int4 \<Rightarrow> call list \<Rightarrow> result list \<Rightarrow> rat" where
  "granted_total r ((e, productId, quantity) # calls) (res # results) =
     (if productId = of_int (sint r) \<and> success res then quantity else 0)
       + granted_total r calls results"
| "granted_total r _ _ = 0"

definition stock_of :: "server \<Rightarrow> int4 \<Rightarrow> int option" where
  "stock_of s r = map_option (\<lambda>p. sint (p_stock p)) (products (committed s) r)"

text \<open>The tables as \<open>scripts/migrate.js\<close> leaves them, run at time \<open>t\<close>.\<close>

definition sample_products :: "nat \<Rightarrow> (int4 \<rightharpoonup> product)" where
  "sample_products t =
     [1 \<mapsto> \<lparr>p_name = ''Laptop'', p_stock = 10, p_created_at = t\<rparr>,
      2 \<mapsto> \<lparr>p_name = ''Mouse'', p_stock = 50, p_created_at = t\<rparr>,
      3 \<mapsto> \<lparr>p_name = ''Keyboard'', p_stock = 30, p_created_at = t\<rparr>,
      4 \<mapsto> \<lparr>p_name = ''Monitor'', p_stock = 5, p_created_at = t\<rparr>,
      5 \<mapsto> \<lparr>p_name = ''USB Cable'', p_stock = 100, p_created_at = t\<rparr>]"

definition migrated :: "nat \<Rightarrow> server" where
  "migrated t = \<lparr>committed = \<lparr>products = sample_products t, orders = []\<rparr>, orders_id_seq = 0\<rparr>"

definition at_time :: "nat \<Rightarrow> env" where
  "at_time t = \<lparr>failing = {}, now = t\<rparr>"

section \<open>Properties\<close>

subsection \<open>32-bit integers\<close>

text \<open>The number read from an \<open>INTEGER\<close> value is kept as \<open>of_int (sint w)\<close>.\<close>

declare of_int_sint [simp del]

lemma int4_range_sint: "int4_range (sint (w :: int4))"
  using sint_ge [of w] sint_lt [of w] by (simp add: int4_range_def)

lemma sint_int4: "int4_range k \<Longrightarrow> sint (word_of_int k :: int4) = k"
  by (simp add: int4_range_def sint_sbintrunc' signed_take_bit_int_eq_self)

lemma int4_sint: "word_of_int (sint w) = (w :: int4)"
  by (simp add: of_int_sint)

lemma sint_eq_iff: "sint (a :: int4) = sint b \<longleftrightarrow> a = b"
  by (metis int4_sint)

text \<open>Inside the range the word subtraction is the subtraction of the numbers; it is
  inside whenever a positive, or zero, amount not above the stock is taken off.\<close>

lemma sint_sub_int4:
  "int4_range (sint a - sint b) \<Longrightarrow> sint (a - b :: int4) = sint a - sint b"
proof -
  assume r: "int4_range (sint a - sint b)"
  have "a - b = word_of_int (sint a - sint b)" by (simp add: int4_sint)
  then show ?thesis using sint_int4 [OF r] by simp
qed

lemma int4_range_sub:
  "0 < sint (n :: int4) \<Longrightarrow> sint n \<le> sint (k :: int4) \<Longrightarrow> int4_range (sint k - sint n)"
  using int4_range_sint [of k] by (simp add: int4_range_def)

lemma int4_range_sub_nonneg:
  "0 \<le> sint (a :: int4) \<Longrightarrow> sint a \<le> sint (k :: int4) \<Longrightarrow> int4_range (sint k - sint a)"
  using int4_range_sint [of k] by (simp add: int4_range_def)

text \<open>The parameters that the server accepts as \<open>INTEGER\<close> are exactly the numbers of
  \<open>INTEGER\<close> values; the others are the numbers that are not whole or lie outside the
  32-bit range.\<close>

lemma pg_integer_sint: "pg_integer (of_int (sint w)) = Some w"
  by (simp add: pg_integer_def int4_range_sint int4_sint)

lemma pg_integer_Some: "pg_integer x = Some w \<Longrightarrow> x = of_int (sint w)"
  by (auto simp add: pg_integer_def sint_int4 split: if_splits)

lemma pg_integer_Some_iff: "pg_integer x = Some w \<longleftrightarrow> x = of_int (sint w)"
  using pg_integer_Some pg_integer_sint by blast

lemma pg_integer_None_iff:
  "pg_integer x = None \<longleftrightarrow> x \<notin> \<int> \<or> x < - 2147483648 \<or> 2147483647 < x"
proof (cases "x \<in> \<int>")
  case True
  then obtain k where x: "x = of_int k" by (auto elim: Ints_cases)
  have "(rat_of_int k < - 2147483648) = (k < - 2147483648)"
    using of_int_less_iff [of k "- 2147483648", where ?'a = rat] by simp
  moreover have "(2147483647 < rat_of_int k) = (2147483647 < k)"
    using of_int_less_iff [of 2147483647 k, where ?'a = rat] by simp
  ultimately show ?thesis using True by (auto simp add: pg_integer_def int4_range_def x)
next
  case False
  then have "of_int \<lfloor>x\<rfloor> \<noteq> x" by (metis Ints_of_int)
  with False show ?thesis by (simp add: pg_integer_def)
qed

lemma not_Ints_pg_integer: "q \<notin> \<int> \<Longrightarrow> pg_integer q = None"
  by (simp add: pg_integer_None_iff)

lemma not_Ints_floor: "of_int \<lfloor>x :: rat\<rfloor> \<noteq> x \<Longrightarrow> x \<notin> \<int>"
  by (auto elim: Ints_cases)

lemma floor_rat_numeral: "\<lfloor>numeral a / numeral b :: rat\<rfloor> = numeral a div numeral b"
  using floor_divide_of_int_eq [of "numeral a" "numeral b", where ?'a = rat] by simp

subsection \<open>What one call does\<close>

lemmas placeOrder_defs = placeOrder_def placeOrder_try_def pool_connect_def release_def
  query_BEGIN_def query_ROLLBACK_def query_COMMIT_def findByIdWithLock_def deductStock_def
  create_def rollback_return_def snapshot_def modify_def

text \<open>Whatever the database refuses, a call ends in one of two ways: it fails and the
  committed tables are untouched, or it succeeds, and then the product id and the
  quantity were the numbers of \<open>INTEGER\<close> values, the quantity positive and within the
  stock, the stock went down by it and one order was appended.\<close>

lemma placeOrder_cases:
  assumes "placeOrder e s pid q = (res, s')"
  shows "(\<not> success res \<and> committed s' = committed s \<and> order res = None) \<or>
         (success res \<and> (\<exists>n i p. q = of_int (sint n) \<and> pid = of_int (sint i) \<and> 0 < sint n
             \<and> products (committed s) i = Some p \<and> sint n \<le> sint (p_stock p)
             \<and> int4_range (sint (p_stock p) - sint n)
             \<and> res = created \<lparr>o_id = orders_id_seq s + 1, o_product_id = i, o_quantity = n,
                               o_status = CONFIRMED, o_created_at = now e\<rparr>
             \<and> s' = \<lparr>committed =
                        \<lparr>products = (products (committed s))(i \<mapsto> p\<lparr>p_stock := p_stock p - n\<rparr>),
                         orders = orders (committed s) @
                           [\<lparr>o_id = orders_id_seq s + 1, o_product_id = i, o_quantity = n,
                             o_status = CONFIRMED, o_created_at = now e\<rparr>]\<rparr>,
                      orders_id_seq = orders_id_seq s + 1\<rparr>))"
  using assms
  by (auto simp add: placeOrder_defs failure_def created_def Let_def
      split: if_splits option.splits dest!: pg_integer_Some)

text \<open>When the database answers every statement, the call is this decision list.\<close>

lemma placeOrder_healthy:
  assumes "healthy e"
  shows "placeOrder e s pid q =
     (case pg_integer pid of
        None \<Rightarrow> (failure INTERNAL_ERROR 500, s)
      | Some i \<Rightarrow>
     (case products (committed s) i of
        None \<Rightarrow> (failure PRODUCT_NOT_FOUND 404, s)
      | Some p \<Rightarrow>
          if q \<le> 0 then (failure INVALID_QUANTITY 400, s)
          else if of_int (sint (p_stock p)) < q
          then ((failure INSUFFICIENT_STOCK 400)\<lparr>availableStock := Some (sint (p_stock p))\<rparr>, s)
          else case pg_integer q of
                 None \<Rightarrow> (failure INTERNAL_ERROR 500, s)
               | Some n \<Rightarrow>
            (created \<lparr>o_id = orders_id_seq s + 1, o_product_id = i, o_quantity = n,
                         o_status = CONFIRMED, o_created_at = now e\<rparr>,
                \<lparr>committed =
                   \<lparr>products = (products (committed s))(i \<mapsto> p\<lparr>p_stock := p_stock p - n\<rparr>),
                    orders = orders (committed s) @
                      [\<lparr>o_id = orders_id_seq s + 1, o_product_id = i, o_quantity = n,
                        o_status = CONFIRMED, o_created_at = now e\<rparr>]\<rparr>,
                 orders_id_seq = orders_id_seq s + 1\<rparr>)))"
  using assms
  by (auto simp add: placeOrder_defs healthy_def throws_def Let_def int4_range_sub
      split: if_splits option.splits dest!: pg_integer_Some)

lemma healthy_at_time: "healthy (at_time t)"
  by (simp add: healthy_def at_time_def)

lemmas eval_simps = placeOrder_healthy healthy_def at_time_def stock_of_def migrated_def
  sample_products_def confirmed_total_def created_def failure_def pg_integer_def
  int4_range_def floor_rat_numeral

subsection \<open>Conservation of stock over a sequence of calls\<close>

lemma confirmed_total_snoc:
  "orders db' = orders db @ [x] \<Longrightarrow>
   confirmed_total db' r =
     confirmed_total db r
       + (if o_product_id x = r \<and> o_status x = CONFIRMED then sint (o_quantity x) else 0)"
  by (simp add: confirmed_total_def)

text \<open>One call moves the stock of any product \<open>r\<close> by exactly what it adds to the
  confirmed total of \<open>r\<close>, which is the quantity of the call if it succeeded against
  \<open>r\<close> and nothing otherwise.\<close>

lemma placeOrder_step:
  assumes call: "placeOrder e s pid q = (res, s')"
    and stock: "stock_of s r = Some k"
  shows "stock_of s' r
           = Some (k - (confirmed_total (committed s') r - confirmed_total (committed s) r))
       \<and> (0 \<le> k \<longrightarrow> confirmed_total (committed s') r - confirmed_total (committed s) r \<le> k)
       \<and> (if pid = of_int (sint r) \<and> success res then q else 0)
           = of_int (confirmed_total (committed s') r - confirmed_total (committed s) r)"
proof -
  from placeOrder_cases [OF call] show ?thesis
  proof (elim disjE conjE exE)
    assume "\<not> success res" and "committed s' = committed s"
    with stock show ?thesis by (simp add: stock_of_def)
  next
    fix n i p
    assume ok: "success res" and q: "q = of_int (sint n)" and pid: "pid = of_int (sint i)"
      and p: "products (committed s) i = Some p" and le: "sint n \<le> sint (p_stock p)"
      and range: "int4_range (sint (p_stock p) - sint n)"
      and s': "s' = \<lparr>committed =
                        \<lparr>products = (products (committed s))(i \<mapsto> p\<lparr>p_stock := p_stock p - n\<rparr>),
                         orders = orders (committed s) @
                           [\<lparr>o_id = orders_id_seq s + 1, o_product_id = i, o_quantity = n,
                             o_status = CONFIRMED, o_created_at = now e\<rparr>]\<rparr>,
                      orders_id_seq = orders_id_seq s + 1\<rparr>"
    have ct: "confirmed_total (committed s') r
                = confirmed_total (committed s) r + (if i = r then sint n else 0)"
      using confirmed_total_snoc [of "committed s'" "committed s" _ r] by (simp add: s')
    have same: "pid = of_int (sint r) \<longleftrightarrow> i = r" by (simp add: pid sint_eq_iff)
    show ?thesis
    proof (cases "i = r")
      case True
      with stock p have "sint (p_stock p) = k" by (simp add: stock_of_def)
      with True ok q le ct same sint_sub_int4 [OF range] show ?thesis
        by (simp add: stock_of_def s')
    next
      case False
      with stock ct same show ?thesis by (simp add: stock_of_def s')
    qed
  qed
qed

lemma placeOrders_invariant:
  "placeOrders s0 calls = (results, s) \<Longrightarrow> stock_of s0 r = Some k \<Longrightarrow> 0 \<le> k \<Longrightarrow>
   stock_of s r = Some (k - (confirmed_total (committed s) r - confirmed_total (committed s0) r))
   \<and> confirmed_total (committed s) r - confirmed_total (committed s0) r \<le> k
   \<and> granted_total r calls results
       = of_int (confirmed_total (committed s) r - confirmed_total (committed s0) r)"
proof (induction calls arbitrary: s0 k results)
  case Nil
  then show ?case by simp
next
  case (Cons c calls)
  obtain e pid q where c: "c = (e, pid, q)" by (cases c)
  obtain res s1 where first: "placeOrder e s0 pid q = (res, s1)"
    by (cases "placeOrder e s0 pid q")
  obtain rs where rest: "placeOrders s1 calls = (rs, s)" and results: "results = res # rs"
    using Cons.prems(1) by (auto simp: c first split: prod.splits)
  let ?d1 = "confirmed_total (committed s1) r - confirmed_total (committed s0) r"
  from placeOrder_step [OF first Cons.prems(2)] Cons.prems(3)
  have s1: "stock_of s1 r = Some (k - ?d1)" and le1: "?d1 \<le> k"
    and g1: "(if pid = of_int (sint r) \<and> success res then q else 0) = of_int ?d1"
    by simp_all
  from le1 have "0 \<le> k - ?d1" by simp
  from Cons.IH [OF rest s1 this]
  show ?case using g1 by (simp add: c results)
qed

text \<open>
  C1. Take a product \<open>r\<close> with stock \<open>Q0 \<ge> 0\<close> and no confirmed order against it, and any
  finite sequence of \<open>placeOrder\<close> calls (any product ids, any quantities, any database
  failures) made one after another. After each of them, that is after the first \<open>n\<close>
  calls for every \<open>n\<close>, the stock of \<open>r\<close> is \<open>Q0\<close> minus the sum of the quantities of the
  confirmed orders recorded against \<open>r\<close>, it is not negative, and the quantities of the
  calls against \<open>r\<close> that returned success sum to at most \<open>Q0\<close>.
\<close>

theorem placeOrders_conservation:
  assumes "stock_of s0 r = Some Q0" and "0 \<le> Q0"
    and "confirmed_total (committed s0) r = 0"
    and "placeOrders s0 (take n calls) = (results, s)"
  shows "stock_of s r = Some (Q0 - confirmed_total (committed s) r)
       \<and> 0 \<le> Q0 - confirmed_total (committed s) r
       \<and> granted_total r (take n calls) results \<le> of_int Q0"
  using placeOrders_invariant [OF assms(4) assms(1) assms(2)] assms(3)
  by simp

theorem placeOrders_conservation_witness:
  "stock_of (migrated 0) 4 = Some 5
   \<and> confirmed_total (committed (migrated 0)) 4 = 0
   \<and> stock_of (snd (placeOrders (migrated 0)
         (take 2 [(at_time 1, 4, 3), (at_time 2, 4, 3), (at_time 3, 4, 2)]))) 4 = Some 2
   \<and> confirmed_total (committed (snd (placeOrders (migrated 0)
         (take 2 [(at_time 1, 4, 3), (at_time 2, 4, 3), (at_time 3, 4, 2)])))) 4 = 3
   \<and> granted_total 4 (take 2 [(at_time 1, 4, 3), (at_time 2, 4, 3), (at_time 3, 4, 2)])
         (fst (placeOrders (migrated 0)
            (take 2 [(at_time 1, 4, 3), (at_time 2, 4, 3), (at_time 3, 4, 2)]))) = 3"
  using placeOrders_conservation [of "migrated 0" 4 5 2
      "[(at_time 1, 4, 3), (at_time 2, 4, 3), (at_time 3, 4, 2)]"
      "fst (placeOrders (migrated 0)
         (take 2 [(at_time 1, 4, 3), (at_time 2, 4, 3), (at_time 3, 4, 2)]))"
      "snd (placeOrders (migrated 0)
         (take 2 [(at_time 1, 4, 3), (at_time 2, 4, 3), (at_time 3, 4, 2)]))"]
  by (simp add: eval_simps)

subsection \<open>Failed calls\<close>

text \<open>The sequential model never reaches the defensive \<open>STOCK_DEDUCTION_FAILED\<close> answer:
  the stock that \<open>deductStock\<close> tests is the one the service has just compared.\<close>

lemma placeOrder_never_deduction_failed:
  "code (fst (placeOrder e s pid q)) \<noteq> Some STOCK_DEDUCTION_FAILED"
  by (auto simp add: placeOrder_defs failure_def created_def Let_def
      split: if_splits option.splits dest!: pg_integer_Some)

text \<open>
  C2. A \<open>placeOrder\<close> call that returns an unsuccessful result, whichever it is
  (\<open>PRODUCT_NOT_FOUND\<close>, \<open>INVALID_QUANTITY\<close>, \<open>INSUFFICIENT_STOCK\<close>,
  \<open>STOCK_DEDUCTION_FAILED\<close>, \<open>INTERNAL_ERROR\<close>), leaves the committed \<open>products\<close> and
  \<open>orders\<close> tables exactly as they were before the call: no deduction and no order of
  that call is visible.
\<close>

theorem placeOrder_failure_no_mutation:
  assumes "placeOrder e s pid q = (res, s')" and "\<not> success res"
  shows "products (committed s') = products (committed s)
       \<and> orders (committed s') = orders (committed s)"
  using placeOrder_cases [OF assms(1)] assms(2) by auto

text \<open>A call whose \<open>COMMIT\<close> is refused, after the deduction and the insertion were made
  inside the transaction.\<close>

theorem placeOrder_failure_no_mutation_witness:
  "code (fst (placeOrder \<lparr>failing = {COMMIT}, now = 1\<rparr> (migrated 0) 4 3)) = Some INTERNAL_ERROR
   \<and> \<not> success (fst (placeOrder \<lparr>failing = {COMMIT}, now = 1\<rparr> (migrated 0) 4 3))
   \<and> products (committed (snd (placeOrder \<lparr>failing = {COMMIT}, now = 1\<rparr> (migrated 0) 4 3)))
       = sample_products 0
   \<and> orders (committed (snd (placeOrder \<lparr>failing = {COMMIT}, now = 1\<rparr> (migrated 0) 4 3))) = []"
proof -
  have r: "fst (placeOrder \<lparr>failing = {COMMIT}, now = 1\<rparr> (migrated 0) 4 3)
             = failure INTERNAL_ERROR 500"
    by (simp add: placeOrder_defs throws_def migrated_def sample_products_def Let_def
        pg_integer_def int4_range_def)
  then have f: "\<not> success (fst (placeOrder \<lparr>failing = {COMMIT}, now = 1\<rparr> (migrated 0) 4 3))"
    by (simp add: failure_def)
  from placeOrder_failure_no_mutation [OF prod.collapse [symmetric] f] r f
  show ?thesis by (simp add: migrated_def failure_def)
qed

subsection \<open>The order of the checks\<close>

text \<open>
  C3, as stated, asks for \<open>INVALID_QUANTITY\<close> for every product id when the quantity is
  not positive. The service looks the product up first: on the sample data, which has no
  product 6, the call with quantity 0 for product 6 answers \<open>PRODUCT_NOT_FOUND\<close>.
\<close>

theorem placeOrder_unknown_product_counterexample:
  "(0::rat) \<le> 0
   \<and> code (fst (placeOrder (at_time 1) (migrated 0) 6 0)) = Some PRODUCT_NOT_FOUND
   \<and> code (fst (placeOrder (at_time 1) (migrated 0) 6 0)) \<noteq> Some INVALID_QUANTITY"
  by (simp add: eval_simps)

text \<open>
  C3, amended. With the database answering every statement. A product id that is the
  number of an \<open>INTEGER\<close> value and identifies no product gets \<open>PRODUCT_NOT_FOUND\<close>,
  whatever the quantity; one that identifies an existing product gets
  \<open>INVALID_QUANTITY\<close> when the quantity is \<open>\<le> 0\<close>; a product id that is not a whole
  number or lies outside the 32-bit range gets \<open>INTERNAL_ERROR\<close>, whatever the quantity,
  because the lookup itself is refused. Nothing is changed in any of these cases. The
  lookup of the product is the first step and takes precedence over the quantity check.
\<close>

theorem placeOrder_existence_before_quantity:
  assumes "healthy e"
  shows "(pid \<notin> \<int> \<or> pid < - 2147483648 \<or> 2147483647 < pid \<longrightarrow>
            placeOrder e s pid q = (failure INTERNAL_ERROR 500, s))
       \<and> (products (committed s) i = None \<longrightarrow>
            placeOrder e s (of_int (sint i)) q = (failure PRODUCT_NOT_FOUND 404, s))
       \<and> (products (committed s) i \<noteq> None \<and> q \<le> 0 \<longrightarrow>
            placeOrder e s (of_int (sint i)) q = (failure INVALID_QUANTITY 400, s))"
proof (intro conjI impI)
  assume "pid \<notin> \<int> \<or> pid < - 2147483648 \<or> 2147483647 < pid"
  then have "pg_integer pid = None" by (simp add: pg_integer_None_iff)
  then show "placeOrder e s pid q = (failure INTERNAL_ERROR 500, s)"
    by (simp add: placeOrder_healthy [OF assms])
next
  assume "products (committed s) i = None"
  then show "placeOrder e s (of_int (sint i)) q = (failure PRODUCT_NOT_FOUND 404, s)"
    by (simp add: placeOrder_healthy [OF assms] pg_integer_sint)
next
  assume "products (committed s) i \<noteq> None \<and> q \<le> 0"
  then show "placeOrder e s (of_int (sint i)) q = (failure INVALID_QUANTITY 400, s)"
    by (auto simp add: placeOrder_healthy [OF assms] pg_integer_sint)
qed

theorem placeOrder_existence_before_quantity_witness:
  "placeOrder (at_time 1) (migrated 0) 6 (-1) = (failure PRODUCT_NOT_FOUND 404, migrated 0)
   \<and> placeOrder (at_time 1) (migrated 0) 4 (-1) = (failure INVALID_QUANTITY 400, migrated 0)
   \<and> placeOrder (at_time 1) (migrated 0) 2147483648 1 = (failure INTERNAL_ERROR 500, migrated 0)
   \<and> placeOrder (at_time 1) (migrated 0) (3/2) 1 = (failure INTERNAL_ERROR 500, migrated 0)"
proof -
  note t = placeOrder_existence_before_quantity
             [where e = "at_time 1" and s = "migrated 0", OF healthy_at_time]
  have "products (committed (migrated 0)) 6 = None" "products (committed (migrated 0)) 4 \<noteq> None"
    by (simp_all add: migrated_def sample_products_def)
  with t [where i = 6 and q = "-1"] t [where i = 4 and q = "-1"]
  have 1: "placeOrder (at_time 1) (migrated 0) 6 (-1) = (failure PRODUCT_NOT_FOUND 404, migrated 0)"
    and 2: "placeOrder (at_time 1) (migrated 0) 4 (-1) = (failure INVALID_QUANTITY 400, migrated 0)"
    by simp_all
  have "(3/2 :: rat) \<notin> \<int>" by (rule not_Ints_floor) (simp add: floor_rat_numeral)
  with t [where pid = 2147483648 and q = 1] t [where pid = "3/2" and q = 1]
  have 3: "placeOrder (at_time 1) (migrated 0) 2147483648 1 = (failure INTERNAL_ERROR 500, migrated 0)"
    and 4: "placeOrder (at_time 1) (migrated 0) (3/2) 1 = (failure INTERNAL_ERROR 500, migrated 0)"
    by simp_all
  from 1 2 3 4 show ?thesis by simp
qed

text \<open>The controller in front of the service does refuse a quantity \<open>\<le> 0\<close> before the
  service, and so the product lookup, is reached. Of a product id it only asks that it
  be a positive number: 1.5 and 2147483648 reach the service.\<close>

lemma request_check_quantity:
  "request_check (Number i) (Number q) = Some INVALID_QUANTITY \<longleftrightarrow> 0 < i \<and> q \<le> 0"
  by (simp add: request_check_def not_positive_number_def)

lemma request_check_product_id:
  "0 < i \<Longrightarrow> 0 < q \<Longrightarrow> request_check (Number i) (Number q) = None"
  by (simp add: request_check_def not_positive_number_def)

subsection \<open>Quantities that are not integers\<close>

text \<open>
  C4, as stated, asks for \<open>INVALID_QUANTITY\<close> for every quantity that is not an integer.
  The only quantity test of the service is \<open>quantity <= 0\<close>: the Monitor of the sample
  data has stock 5, and the call for 5.5 of it answers \<open>INSUFFICIENT_STOCK\<close>.
\<close>

theorem placeOrder_fraction_counterexample:
  "(11/2 :: rat) \<notin> \<int>
   \<and> products (committed (migrated 0)) 4 \<noteq> None
   \<and> code (fst (placeOrder (at_time 1) (migrated 0) 4 (11/2))) = Some INSUFFICIENT_STOCK
   \<and> code (fst (placeOrder (at_time 1) (migrated 0) 4 (11/2))) \<noteq> Some INVALID_QUANTITY"
proof -
  have "(11/2 :: rat) \<notin> \<int>" by (rule not_Ints_floor) (simp add: floor_rat_numeral)
  moreover have "products (committed (migrated 0)) 4 \<noteq> None
     \<and> code (fst (placeOrder (at_time 1) (migrated 0) 4 (11/2))) = Some INSUFFICIENT_STOCK
     \<and> code (fst (placeOrder (at_time 1) (migrated 0) 4 (11/2))) \<noteq> Some INVALID_QUANTITY"
    by (simp add: eval_simps)
  ultimately show ?thesis by (rule conjI)
qed

text \<open>
  C4, amended. For every existing product and every quantity that is not an integer,
  \<open>placeOrder\<close> returns an unsuccessful result and changes nothing. With the database
  answering every statement, the result is \<open>INVALID_QUANTITY\<close> only when the quantity is
  \<open>\<le> 0\<close>; for a positive quantity it is \<open>INSUFFICIENT_STOCK\<close> when the quantity exceeds the
  stock, and otherwise \<open>INTERNAL_ERROR\<close>, from the \<open>UPDATE\<close> that the database refuses.
\<close>

theorem placeOrder_fraction:
  assumes "products (committed s) i = Some p" and "q \<notin> \<int>"
    and "placeOrder e s (of_int (sint i)) q = (res, s')"
  shows "\<not> success res \<and> committed s' = committed s
       \<and> (healthy e \<longrightarrow>
            code res = Some (if q \<le> 0 then INVALID_QUANTITY
                             else if of_int (sint (p_stock p)) < q then INSUFFICIENT_STOCK
                             else INTERNAL_ERROR))"
proof -
  have "\<not> success res \<and> committed s' = committed s"
    using placeOrder_cases [OF assms(3)] assms(2) by auto
  moreover have "pg_integer q = None" using assms(2) by (rule not_Ints_pg_integer)
  then have "healthy e \<longrightarrow>
            code res = Some (if q \<le> 0 then INVALID_QUANTITY
                             else if of_int (sint (p_stock p)) < q then INSUFFICIENT_STOCK
                             else INTERNAL_ERROR)"
    using assms(1,3) by (auto simp add: placeOrder_healthy failure_def pg_integer_sint)
  ultimately show ?thesis by simp
qed

theorem placeOrder_fraction_witness:
  "(5/2 :: rat) \<notin> \<int>
   \<and> \<not> success (fst (placeOrder (at_time 1) (migrated 0) 4 (5/2)))
   \<and> committed (snd (placeOrder (at_time 1) (migrated 0) 4 (5/2))) = committed (migrated 0)
   \<and> code (fst (placeOrder (at_time 1) (migrated 0) 4 (5/2))) = Some INTERNAL_ERROR"
proof -
  have frac: "(5/2 :: rat) \<notin> \<int>" by (rule not_Ints_floor) (simp add: floor_rat_numeral)
  have p: "products (committed (migrated 0)) 4
             = Some \<lparr>p_name = ''Monitor'', p_stock = 5, p_created_at = 0\<rparr>"
    by (simp add: migrated_def sample_products_def)
  have four: "rat_of_int (sint (4 :: int4)) = 4" by simp
  from placeOrder_fraction [OF p frac, where e = "at_time 1", unfolded four,
      OF prod.collapse [symmetric]] frac
  show ?thesis by (simp add: healthy_at_time)
qed

text \<open>The controller does not test for an integer either: a positive fraction passes its
  checks and reaches the service.\<close>

lemma request_check_fraction:
  "0 < i \<Longrightarrow> 0 < q \<Longrightarrow> request_check (Number i) (Number q) = None"
  by (simp add: request_check_def not_positive_number_def)

subsection \<open>Insufficient stock and the boundary\<close>



subsection \<open>Successful calls\<close>



subsection \<open>The conditional deduction\<close>

text \<open>
  C7, as stated, speaks of every amount. \<open>deductStock\<close> receives the quantity of the
  call as it is: for the amount 2.5 against the Monitor of the sample data, stock 5, the
  stock covers the amount, but the statement is refused, so the call reports neither
  success nor failure and the stock is not decreased.
\<close>

theorem deductStock_fraction_counterexample:
  "products (snapshot (pool_connect (migrated 0))) 4
     = Some \<lparr>p_name = ''Monitor'', p_stock = 5, p_created_at = 0\<rparr>
   \<and> (5/2 :: rat) \<le> 5
   \<and> deductStock (at_time 1) 4 (5/2) (pool_connect (migrated 0))
       = (Inl InvalidInteger, pool_connect (migrated 0))
   \<and> fst (deductStock (at_time 1) 4 (5/2) (pool_connect (migrated 0))) \<noteq> Inr True"
  by (simp add: deductStock_def throws_def at_time_def pool_connect_def migrated_def
      sample_products_def snapshot_def pg_integer_def int4_range_def floor_rat_numeral)

text \<open>A whole amount can be refused too: \<open>5 - (-2147483647)\<close> leaves the 32-bit range,
  and 2147483648 is no \<open>INTEGER\<close>.\<close>

lemma deductStock_overflow:
  "deductStock (at_time 1) 4 (- 2147483647) (pool_connect (migrated 0))
     = (Inl IntegerOutOfRange, pool_connect (migrated 0))
   \<and> deductStock (at_time 1) 4 2147483648 (pool_connect (migrated 0))
     = (Inl InvalidInteger, pool_connect (migrated 0))"
  by (simp add: deductStock_def throws_def at_time_def pool_connect_def migrated_def
      sample_products_def snapshot_def pg_integer_def int4_range_def)

text \<open>
  C7, amended. For an existing product with stock \<open>s\<close>, when the database does not
  refuse the statement for a reason of its own, and for every amount \<open>a\<close> that is the
  number of an \<open>INTEGER\<close> value: if \<open>s < a\<close>, \<open>deductStock\<close> reports failure and changes
  nothing; if \<open>s \<ge> a\<close> and \<open>s - a\<close> is in the 32-bit range, which it always is for
  \<open>a \<ge> 0\<close>, it reports success and the stock becomes \<open>s - a\<close>; if \<open>s \<ge> a\<close> and \<open>s - a\<close>
  is outside the range, the statement raises \<open>integer out of range\<close> and nothing
  changes. For an amount that is not a whole number or lies outside the 32-bit range,
  the statement raises an error and nothing changes.
\<close>

theorem deductStock_conditional:
  assumes "\<not> throws e UPDATE_STOCK" and "products (snapshot c) i = Some p"
  shows "(sint (p_stock p) < sint a \<longrightarrow>
            deductStock e (of_int (sint i)) (of_int (sint a)) c = (Inr False, c))
       \<and> (sint a \<le> sint (p_stock p) \<and> int4_range (sint (p_stock p) - sint a) \<longrightarrow>
            fst (deductStock e (of_int (sint i)) (of_int (sint a)) c) = Inr True
          \<and> products (snapshot (snd (deductStock e (of_int (sint i)) (of_int (sint a)) c)))
              = (products (snapshot c))(i \<mapsto> p\<lparr>p_stock := p_stock p - a\<rparr>)
          \<and> sint (p_stock p - a) = sint (p_stock p) - sint a)
       \<and> (0 \<le> sint a \<and> sint a \<le> sint (p_stock p) \<longrightarrow>
            int4_range (sint (p_stock p) - sint a))
       \<and> (sint a \<le> sint (p_stock p) \<and> \<not> int4_range (sint (p_stock p) - sint a) \<longrightarrow>
            deductStock e (of_int (sint i)) (of_int (sint a)) c = (Inl IntegerOutOfRange, c))
       \<and> (x \<notin> \<int> \<or> x < - 2147483648 \<or> 2147483647 < x \<longrightarrow>
            deductStock e (of_int (sint i)) x c = (Inl InvalidInteger, c))"
proof (intro conjI impI)
  assume "sint (p_stock p) < sint a"
  with assms show "deductStock e (of_int (sint i)) (of_int (sint a)) c = (Inr False, c)"
    by (simp add: deductStock_def pg_integer_sint)
next
  assume ok: "sint a \<le> sint (p_stock p) \<and> int4_range (sint (p_stock p) - sint a)"
  with assms show "fst (deductStock e (of_int (sint i)) (of_int (sint a)) c) = Inr True"
    by (simp add: deductStock_def pg_integer_sint)
  from ok assms
  show "products (snapshot (snd (deductStock e (of_int (sint i)) (of_int (sint a)) c)))
              = (products (snapshot c))(i \<mapsto> p\<lparr>p_stock := p_stock p - a\<rparr>)"
    by (auto simp add: deductStock_def pg_integer_sint snapshot_def modify_def
        split: option.splits)
  from ok show "sint (p_stock p - a) = sint (p_stock p) - sint a"
    by (simp add: sint_sub_int4)
next
  assume "0 \<le> sint a \<and> sint a \<le> sint (p_stock p)"
  then show "int4_range (sint (p_stock p) - sint a)" by (simp add: int4_range_sub_nonneg)
next
  assume "sint a \<le> sint (p_stock p) \<and> \<not> int4_range (sint (p_stock p) - sint a)"
  with assms
  show "deductStock e (of_int (sint i)) (of_int (sint a)) c = (Inl IntegerOutOfRange, c)"
    by (simp add: deductStock_def pg_integer_sint)
next
  assume "x \<notin> \<int> \<or> x < - 2147483648 \<or> 2147483647 < x"
  then have "pg_integer x = None" by (simp add: pg_integer_None_iff)
  with assms show "deductStock e (of_int (sint i)) x c = (Inl InvalidInteger, c)"
    by (simp add: deductStock_def)
qed

theorem deductStock_conditional_witness:
  "fst (deductStock (at_time 1) 4 3 (pool_connect (migrated 0))) = Inr True
   \<and> stock_of (release (snd (deductStock (at_time 1) 4 3 (pool_connect (migrated 0))))) 4
       = Some 2
   \<and> deductStock (at_time 1) 4 6 (pool_connect (migrated 0))
       = (Inr False, pool_connect (migrated 0))
   \<and> deductStock (at_time 1) 4 (- 2147483647) (pool_connect (migrated 0))
       = (Inl IntegerOutOfRange, pool_connect (migrated 0))
   \<and> deductStock (at_time 1) 4 (5/2) (pool_connect (migrated 0))
       = (Inl InvalidInteger, pool_connect (migrated 0))"
proof -
  have nt: "\<not> throws (at_time 1) UPDATE_STOCK" by (simp add: throws_def at_time_def)
  have p: "products (snapshot (pool_connect (migrated 0))) 4
             = Some \<lparr>p_name = ''Monitor'', p_stock = 5, p_created_at = 0\<rparr>"
    by (simp add: snapshot_def pool_connect_def migrated_def sample_products_def)
  note t = deductStock_conditional [OF nt p]
  have frac: "(5/2 :: rat) \<notin> \<int>" by (rule not_Ints_floor) (simp add: floor_rat_numeral)
  from t [where a = 3 and x = "5/2"] t [where a = 6 and x = "5/2"]
    t [where a = "- 2147483647" and x = "5/2"] frac
  show ?thesis
    by (simp add: int4_range_def stock_of_def release_def snapshot_def pool_connect_def
        migrated_def sample_products_def deductStock_def throws_def at_time_def
        pg_integer_def modify_def)
qed

subsection \<open>Scenario A\<close>



subsection \<open>Listing the orders\<close>

lemma join_product_row:
  "row \<in> set (join_product db ord) \<Longrightarrow>
   order_row.truncate row = ord
   \<and> (\<exists>p. products db (o_product_id ord) = Some p \<and> product_name row = p_name p)"
  by (cases "products db (o_product_id ord)")
    (auto simp add: join_product_def order_row.truncate_def)

lemma join_product_truncate:
  "map order_row.truncate (join_product db ord)
     = (if products db (o_product_id ord) = None then [] else [ord])"
  by (auto simp add: join_product_def order_row.truncate_def split: option.splits)

lemma joined_truncate:
  "map order_row.truncate (concat (map (join_product db) xs))
     = filter (\<lambda>ord. products db (o_product_id ord) \<noteq> None) xs"
  by (induction xs) (simp_all add: join_product_truncate)

text \<open>
  C9. Whatever the tables hold, the rows that \<open>findAll\<close> returns are in descending order
  of \<open>created_at\<close>; each row is an order of the \<open>orders\<close> table together with the name of
  the product it refers to; and the rows are exactly the orders whose product exists,
  each once.
\<close>

theorem findAll_sorted_joined:
  assumes "findAll e db = Inr rows"
  shows "sorted_wrt (\<lambda>a b. o_created_at a \<ge> o_created_at b) rows
       \<and> (\<forall>row \<in> set rows. order_row.truncate row \<in> set (orders db)
             \<and> (\<exists>p. products db (o_product_id row) = Some p \<and> product_name row = p_name p))
       \<and> mset (map order_row.truncate rows)
           = mset (filter (\<lambda>ord. products db (o_product_id ord) \<noteq> None) (orders db))"
proof -
  let ?joined = "concat (map (join_product db) (orders db))"
  from assms have rows: "rows = rev (sort_key o_created_at ?joined)"
    by (simp add: findAll_def split: if_splits)
  have "sorted (map o_created_at (sort_key o_created_at ?joined))" by (rule sorted_sort_key)
  then have "sorted_wrt (\<lambda>a b. o_created_at a \<le> o_created_at b)
               (sort_key o_created_at ?joined)"
    by (simp add: sorted_wrt_map)
  then have 1: "sorted_wrt (\<lambda>a b. o_created_at a \<ge> o_created_at b) rows"
    by (simp add: rows sorted_wrt_rev)
  have 2: "\<forall>row \<in> set rows. order_row.truncate row \<in> set (orders db)
             \<and> (\<exists>p. products db (o_product_id row) = Some p \<and> product_name row = p_name p)"
  proof
    fix row assume "row \<in> set rows"
    then obtain ord where ord: "ord \<in> set (orders db)" "row \<in> set (join_product db ord)"
      by (auto simp add: rows)
    from join_product_row [OF ord(2)] ord(1)
    show "order_row.truncate row \<in> set (orders db)
             \<and> (\<exists>p. products db (o_product_id row) = Some p \<and> product_name row = p_name p)"
      by (auto simp add: order_row.truncate_def)
  qed
  have "mset (map order_row.truncate rows) = mset (map order_row.truncate ?joined)"
    by (simp add: rows)
  then have 3: "mset (map order_row.truncate rows)
           = mset (filter (\<lambda>ord. products db (o_product_id ord) \<noteq> None) (orders db))"
    by (simp only: joined_truncate)
  from 1 2 3 show ?thesis by blast
qed

theorem findAll_sorted_joined_witness:
  "findAll (at_time 9)
     \<lparr>products = sample_products 0,
      orders = [\<lparr>o_id = 1, o_product_id = 4, o_quantity = 3, o_status = CONFIRMED,
                 o_created_at = 1\<rparr>,
                \<lparr>o_id = 2, o_product_id = 2, o_quantity = 7, o_status = CONFIRMED,
                 o_created_at = 2\<rparr>]\<rparr>
   = Inr [\<lparr>o_id = 2, o_product_id = 2, o_quantity = 7, o_status = CONFIRMED,
            o_created_at = 2, product_name = ''Mouse''\<rparr>,
          \<lparr>o_id = 1, o_product_id = 4, o_quantity = 3, o_status = CONFIRMED,
            o_created_at = 1, product_name = ''Monitor''\<rparr>]
   \<and> sorted_wrt (\<lambda>a b. o_created_at a \<ge> o_created_at b)
       [\<lparr>o_id = 2, o_product_id = 2, o_quantity = 7, o_status = CONFIRMED,
            o_created_at = 2, product_name = ''Mouse''\<rparr>,
          \<lparr>o_id = 1, o_product_id = 4, o_quantity = 3, o_status = CONFIRMED,
            o_created_at = 1, product_name = ''Monitor''\<rparr>]"
proof -
  have run: "findAll (at_time 9)
     \<lparr>products = sample_products 0,
      orders = [\<lparr>o_id = 1, o_product_id = 4, o_quantity = 3, o_status = CONFIRMED,
                 o_created_at = 1\<rparr>,
                \<lparr>o_id = 2, o_product_id = 2, o_quantity = 7, o_status = CONFIRMED,
                 o_created_at = 2\<rparr>]\<rparr>
   = Inr [\<lparr>o_id = 2, o_product_id = 2, o_quantity = 7, o_status = CONFIRMED,
            o_created_at = 2, product_name = ''Mouse''\<rparr>,
          \<lparr>o_id = 1, o_product_id = 4, o_quantity = 3, o_status = CONFIRMED,
            o_created_at = 1, product_name = ''Monitor''\<rparr>]"
    by (simp add: findAll_def throws_def at_time_def join_product_def sample_products_def)
  from findAll_sorted_joined [OF run] run show ?thesis by blast
qed

subsection \<open>When an order is written\<close>

text \<open>
  C10. \<open>placeOrder\<close> writes an order only when it succeeds. A call that fails, for
  whatever reason, leaves the \<open>orders\<close> table as it was. A call that succeeds appends
  exactly one order, the one it returns; its status is \<open>CONFIRMED\<close>, its product is the
  target, its quantity is the positive quantity asked for, and the stock of that product
  has been reduced by that quantity.
\<close>

theorem placeOrder_ledger_entry:
  assumes "placeOrder e s pid q = (res, s')"
  shows "(\<not> success res \<longrightarrow> orders (committed s') = orders (committed s))
       \<and> (success res \<longrightarrow>
            (\<exists>ord p. orders (committed s') = orders (committed s) @ [ord]
                  \<and> order res = Some ord \<and> o_status ord = CONFIRMED
                  \<and> of_int (sint (o_product_id ord)) = pid
                  \<and> of_int (sint (o_quantity ord)) = q \<and> 0 < sint (o_quantity ord)
                  \<and> products (committed s) (o_product_id ord) = Some p
                  \<and> products (committed s')
                      = (products (committed s))
                          (o_product_id ord \<mapsto> p\<lparr>p_stock := p_stock p - o_quantity ord\<rparr>)
                  \<and> sint (p_stock p - o_quantity ord)
                      = sint (p_stock p) - sint (o_quantity ord)))"
  using placeOrder_cases [OF assms] by (auto simp add: created_def sint_sub_int4)

theorem placeOrder_ledger_entry_witness:
  "success (fst (placeOrder (at_time 1) (migrated 0) 4 3))
   \<and> orders (committed (snd (placeOrder (at_time 1) (migrated 0) 4 3)))
       = [\<lparr>o_id = 1, o_product_id = 4, o_quantity = 3, o_status = CONFIRMED, o_created_at = 1\<rparr>]
   \<and> \<not> success (fst (placeOrder (at_time 2) (migrated 0) 4 6))
   \<and> orders (committed (snd (placeOrder (at_time 2) (migrated 0) 4 6))) = []"
  using placeOrder_ledger_entry [OF prod.collapse [symmetric], of "at_time 1" "migrated 0" 4 3]
    placeOrder_ledger_entry [OF prod.collapse [symmetric], of "at_time 2" "migrated 0" 4 6]
  by (simp add: eval_simps)

end
